theory Spec2Isabelle
  imports Main "HOL-Library.Multiset"
begin

section \<open>The summarizer service of \<open>main.py\<close>\<close>

text \<open>
  The service has three endpoints. \<open>summarize_text\<close> validates the request text, calls
  the remote inference client inside a retry loop of \<open>max_retries\<close> attempts, and on
  success inserts one record into the collection. \<open>get_history\<close> reads the collection.

  The two external collaborators are modelled by what the handler can observe of them:
  \<^item> the inference client is a function from the attempt index, the text and the model
    name to the outcome of that call: it returns a summary or raises an exception;
  \<^item> the collection is the list of its documents in insertion order; \<open>insert_one\<close>
    appends and the query of \<open>get_history\<close> filters nothing, sorts, limits and projects.
    The store itself is taken to answer, as the handlers catch no database error; what the
    driver refuses before it reaches the store, a limit that does not fit 64 bits, is an
    error of the handler.

  The effects of a handler are recorded in the \<open>world\<close>: the collection, and the trace
  of the inference calls (with their arguments) and of the calls of \<open>time.sleep\<close> (with
  their durations in seconds), in the order they happen. The calls of \<open>print\<close> are left
  out.
\<close>

subsection \<open>Data\<close>

type_synonym timestamp = nat

text \<open>An \<open>ObjectId\<close> is kept as the hexadecimal string that \<open>str\<close> renders.\<close>

datatype objectid = ObjectId string

fun str_objectid :: "objectid \<Rightarrow> string" where
  "str_objectid (ObjectId h) = h"

text \<open>The dictionary \<open>record\<close> built at line 117.\<close>

record summary_record =
  original_text :: string
  summary_text :: string
  created_at :: timestamp

text \<open>A stored document is the record together with the \<open>_id\<close> the insert gave it.\<close>

type_synonym document = "objectid \<times> summary_record"

datatype event = Summarization string string | Sleep nat

record world =
  collection :: "document list"
  trace :: "event list"

text \<open>
  Exceptions deriving from \<open>Exception\<close>: the typed \<open>InferenceTimeoutError\<close>, caught by the
  first \<open>except\<close> clause, and every other one, caught by the second. Each carries the
  string that \<open>str(e)\<close> gives.
\<close>

datatype exn = InferenceTimeoutError string | Exception string

fun str_exn :: "exn \<Rightarrow> string" where
  "str_exn (InferenceTimeoutError m) = m"
| "str_exn (Exception m) = m"

text \<open>
  The body of the \<open>try\<close>, lines 82 to 86: the call returns a result whose
  \<open>summary_text\<close> is read, or an exception is raised.
\<close>

datatype outcome = Returns string | Raises exn

type_synonym inference_client = "nat \<Rightarrow> string \<Rightarrow> string \<Rightarrow> outcome"

text \<open>What the environment supplies to one request.\<close>

record env =
  hf_client :: inference_client
  utcnow :: timestamp
  new_id :: objectid

text \<open>
  An error leaving a handler: an \<open>HTTPException\<close> with its status code and detail,
  the \<open>UnboundLocalError\<close> of reading \<open>summary_result\<close> at line 119 if the loop ended
  without assigning it, or the \<open>OverflowError\<close> that the driver raises at line 135 for a
  limit beyond 64 bits.
\<close>

datatype error = HTTPException nat string | UnboundLocalError | OverflowError

record summarize_response =
  id_field :: string
  summary :: string
  timestamp_field :: timestamp

record history_response =
  count_field :: nat
  data :: "summary_record list"

subsection \<open>Strings\<close>

text \<open>
  \<open>str.lower\<close> on the letters \<open>A\<close> to \<open>Z\<close>; every other character is left as it is.
\<close>

definition lower_char :: "char \<Rightarrow> char" where
  "lower_char c =
     (if 65 \<le> (of_char c :: nat) \<and> (of_char c :: nat) \<le> 90
      then char_of ((of_char c :: nat) + 32) else c)"

definition lower :: "string \<Rightarrow> string" where
  "lower s = map lower_char s"

text \<open>\<open>s.startswith(sub)\<close> and the substring test \<open>sub in s\<close>.\<close>

fun startswith :: "string \<Rightarrow> string \<Rightarrow> bool" where
  "startswith s [] = True"
| "startswith [] (c # sub) = False"
| "startswith (d # s) (c # sub) = (d = c \<and> startswith s sub)"

fun str_in :: "string \<Rightarrow> string \<Rightarrow> bool" where
  "str_in sub [] = (sub = [])"
| "str_in sub (d # s) = (startswith (d # s) sub \<or> str_in sub s)"

subsection \<open>The summarize endpoint\<close>

definition max_length :: nat where
  "max_length = 1024"

definition max_retries :: nat where
  "max_retries = 3"

definition model_name :: string where
  "model_name = ''sshleifer/distilbart-cnn-12-6''"

text \<open>
  The two \<open>except\<close> clauses, lines 89 to 114: on the exception of attempt \<open>attempt\<close> the
  handler sleeps \<open>wait_time\<close> and continues the loop, or raises.
\<close>

datatype action = Continue nat | Raise error

fun except_clauses :: "nat \<Rightarrow> exn \<Rightarrow> action" where
  "except_clauses attempt (InferenceTimeoutError m) =
     (if attempt < max_retries - 1 then Continue (10 * (attempt + 1))
      else Raise (HTTPException 504 ''Model timeout. Please try again.''))"
| "except_clauses attempt (Exception error_msg) =
     (if str_in ''timed out'' (lower error_msg) then
        (if attempt < max_retries - 1 then Continue (10 * (attempt + 1))
         else Raise (HTTPException 504
           ''Connection timeout. The model is warming up. Please try again in a moment.''))
      else Raise (HTTPException 500 (''AI Error: '' @ error_msg)))"

text \<open>
  The test that sends an exception to the timeout branches of the two clauses: its type
  in the first, the substring test on the lowered message in the second.
\<close>

fun timed_out :: "exn \<Rightarrow> bool" where
  "timed_out (InferenceTimeoutError m) = True"
| "timed_out (Exception error_msg) = str_in ''timed out'' (lower error_msg)"

fun timeout_failure :: "outcome \<Rightarrow> bool" where
  "timeout_failure (Returns summary_result) = False"
| "timeout_failure (Raises e) = timed_out e"

definition call_summarization :: "string \<Rightarrow> world \<Rightarrow> world" where
  "call_summarization text w = w\<lparr>trace := trace w @ [Summarization text model_name]\<rparr>"

definition time_sleep :: "nat \<Rightarrow> world \<Rightarrow> world" where
  "time_sleep wait_time w = w\<lparr>trace := trace w @ [Sleep wait_time]\<rparr>"

text \<open>
  The loop \<open>for attempt in range(max_retries)\<close>, over the list of the attempt indices
  still to run. It ends with the summary at the \<open>break\<close>, with the error raised, or by
  running out of indices with \<open>summary_result\<close> never assigned.
\<close>

fun retry_loop :: "inference_client \<Rightarrow> string \<Rightarrow> nat list \<Rightarrow> world \<Rightarrow> (error + string) \<times> world" where
  "retry_loop hf text [] w = (Inl UnboundLocalError, w)"
| "retry_loop hf text (attempt # rest) w =
     (let w1 = call_summarization text w in
      case hf attempt text model_name of
        Returns summary_result \<Rightarrow> (Inr summary_result, w1)
      | Raises e \<Rightarrow>
          (case except_clauses attempt e of
             Continue wait_time \<Rightarrow> retry_loop hf text rest (time_sleep wait_time w1)
           | Raise err \<Rightarrow> (Inl err, w1)))"

text \<open>
  \<open>collection.insert_one(record)\<close> appends the document under the id generated for it and
  returns that id.
\<close>

definition insert_one :: "objectid \<Rightarrow> summary_record \<Rightarrow> world \<Rightarrow> objectid \<times> world" where
  "insert_one oid r w = (oid, w\<lparr>collection := collection w @ [(oid, r)]\<rparr>)"

text \<open>
  The handler, lines 63 to 128. The detail of the second 400 error is the value of the
  f-string at \<open>max_length = 1024\<close>. The timestamp is read once, after the loop.
\<close>

definition summarize_text :: "env \<Rightarrow> string \<Rightarrow> world \<Rightarrow> (error + summarize_response) \<times> world" where
  "summarize_text e text w =
     (if text = [] then (Inl (HTTPException 400 ''Text cannot be empty''), w)
      else if length text > max_length then
        (Inl (HTTPException 400 ''Text too long. Maximum 1024 characters allowed.''), w)
      else
        (case retry_loop (hf_client e) text [0..<max_retries] w of
           (Inl err, w1) \<Rightarrow> (Inl err, w1)
         | (Inr summary_result, w1) \<Rightarrow>
             (let r = \<lparr>original_text = text, summary_text = summary_result,
                        created_at = utcnow e\<rparr>;
                  (inserted_id, w2) = insert_one (new_id e) r w1
              in (Inr \<lparr>id_field = str_objectid inserted_id, summary = summary_result,
                        timestamp_field = created_at r\<rparr>, w2))))"

subsection \<open>The history endpoint\<close>

text \<open>
  \<open>find({}, {"_id": 0}).sort("created_at", -1).limit(limit)\<close>: every document, sorted by
  \<open>created_at\<close> descending, cut to the limit, each without its \<open>_id\<close>. The driver reads
  a limit of 0 as no limit, and a negative limit as its absolute value. The handler hands
  the limit over unchecked, and the driver sends it as a signed 64-bit integer: when the
  absolute value is \<open>2 ^ 63\<close> or more, listing the cursor raises \<open>OverflowError\<close>, which
  nothing catches.
\<close>

definition max_int64 :: int where
  "max_int64 = 2 ^ 63 - 1"

definition sort_desc :: "document list \<Rightarrow> document list" where
  "sort_desc ds = rev (sort_key (\<lambda>d. created_at (snd d)) ds)"

definition limit_cursor :: "int \<Rightarrow> document list \<Rightarrow> error + document list" where
  "limit_cursor limit ds =
     (if limit = 0 then Inr ds
      else if \<bar>limit\<bar> > max_int64 then Inl OverflowError
      else Inr (take (nat \<bar>limit\<bar>) ds))"

definition project :: "document \<Rightarrow> summary_record" where
  "project d = snd d"

definition get_history :: "int \<Rightarrow> world \<Rightarrow> error + history_response" where
  "get_history limit w =
     (case limit_cursor limit (sort_desc (collection w)) of
        Inl err \<Rightarrow> Inl err
      | Inr cursor \<Rightarrow>
          (let history = map project cursor
           in Inr \<lparr>count_field = length history, data = history\<rparr>))"

subsection \<open>The service\<close>

text \<open>
  A request to one of the three routes. The query parameter \<open>limit\<close> of the history route
  may be absent; \<open>limit: int = 10\<close> then gives it the default.
\<close>

datatype request = GetRoot | PostSummarize string | GetHistory "int option"

definition default_limit :: int where
  "default_limit = 10"

datatype body =
  RootBody string string
| SummarizeBody summarize_response
| HistoryBody history_response

definition root :: body where
  "root = RootBody ''running'' ''Go to /docs for Swagger UI''"

fun handle :: "env \<Rightarrow> request \<Rightarrow> world \<Rightarrow> (error + body) \<times> world" where
  "handle e GetRoot w = (Inr root, w)"
| "handle e (PostSummarize text) w =
     (case summarize_text e text w of
        (Inl err, w') \<Rightarrow> (Inl err, w')
      | (Inr r, w') \<Rightarrow> (Inr (SummarizeBody r), w'))"
| "handle e (GetHistory query_limit) w =
     (case get_history (case query_limit of None \<Rightarrow> default_limit | Some limit \<Rightarrow> limit) w of
        Inl err \<Rightarrow> (Inl err, w)
      | Inr r \<Rightarrow> (Inr (HistoryBody r), w))"

text \<open>The status code of a response; an exception that is no \<open>HTTPException\<close> gives 500.\<close>

fun status_code :: "error + 'a \<Rightarrow> nat" where
  "status_code (Inl (HTTPException code detail)) = code"
| "status_code (Inl UnboundLocalError) = 500"
| "status_code (Inl OverflowError) = 500"
| "status_code (Inr b) = 200"

subsection \<open>The retry schedule as specified\<close>

text \<open>
  The trace of a request that makes \<open>n\<close> attempts, in the words of the specification:
  after the failed attempt \<open>i\<close> a sleep of \<open>10 * (i + 1)\<close> seconds precedes the next
  attempt, and nothing follows the last attempt.
\<close>

definition spec_trace :: "string \<Rightarrow> nat \<Rightarrow> event list" where
  "spec_trace text n =
     concat (map (\<lambda>i. [Summarization text model_name, Sleep (10 * (i + 1))]) [0..<n - 1])
     @ [Summarization text model_name]"

subsection \<open>Sample clients and requests\<close>

text \<open>
  Three inference clients: one that times out twice with a generic error and then
  answers, one that always raises the typed timeout, and one that fails with an error
  that is no timeout.
\<close>

definition flaky_client :: inference_client where
  "flaky_client attempt text model =
     (if attempt < 2 then Raises (Exception ''Read Timed Out.'') else Returns ''short'')"

definition cold_client :: inference_client where
  "cold_client attempt text model = Raises (InferenceTimeoutError ''model loading'')"

definition broken_client :: inference_client where
  "broken_client attempt text model = Raises (Exception ''401 Unauthorized'')"

definition sample_env :: "inference_client \<Rightarrow> env" where
  "sample_env hf = \<lparr>hf_client = hf, utcnow = 1700000000,
                    new_id = ObjectId ''65a1b2c3d4e5f60718293a4b''\<rparr>"

definition empty_world :: world where
  "empty_world = \<lparr>collection = [], trace = []\<rparr>"

text \<open>A collection of three documents, inserted in an order that is not that of their dates.\<close>

definition sample_store :: world where
  "sample_store =
     \<lparr>collection =
        [(ObjectId ''0a'', \<lparr>original_text = ''first'', summary_text = ''s1'', created_at = 10\<rparr>),
         (ObjectId ''0b'', \<lparr>original_text = ''third'', summary_text = ''s3'', created_at = 30\<rparr>),
         (ObjectId ''0c'', \<lparr>original_text = ''second'', summary_text = ''s2'', created_at = 20\<rparr>)],
      trace = []\<rparr>"

section \<open>The retry loop\<close>

text \<open>
  How the loop reacts to one attempt, and where it stops: the attempts before the
  stopping one all failed with a timeout and were each followed by their sleep.
\<close>

lemma except_clauses_continue:
  "timed_out ex \<Longrightarrow> attempt < max_retries - 1 \<Longrightarrow>
   except_clauses attempt ex = Continue (10 * (attempt + 1))"
  by (cases ex) auto

lemma except_clauses_504:
  "timed_out ex \<Longrightarrow> \<not> attempt < max_retries - 1 \<Longrightarrow>
   \<exists>detail. except_clauses attempt ex = Raise (HTTPException 504 detail)"
  by (cases ex) auto

lemma except_clauses_500:
  "\<not> timed_out ex \<Longrightarrow>
   except_clauses attempt ex = Raise (HTTPException 500 (''AI Error: '' @ str_exn ex))"
  by (cases ex) auto

lemma retry_loop_returns:
  "hf a text model_name = Returns s \<Longrightarrow>
   retry_loop hf text (a # rest) w = (Inr s, call_summarization text w)"
  by (simp add: Let_def)

lemma retry_loop_continue:
  "timeout_failure (hf a text model_name) \<Longrightarrow> a < max_retries - 1 \<Longrightarrow>
   retry_loop hf text (a # rest) w =
   retry_loop hf text rest (time_sleep (10 * (a + 1)) (call_summarization text w))"
  by (cases "hf a text model_name") (simp_all add: Let_def except_clauses_continue)

lemma retry_loop_504:
  assumes "timeout_failure (hf a text model_name)" "\<not> a < max_retries - 1"
  shows "\<exists>detail. retry_loop hf text (a # rest) w =
           (Inl (HTTPException 504 detail), call_summarization text w)"
proof (cases "hf a text model_name")
  case (Returns s)
  then show ?thesis using assms by simp
next
  case (Raises ex)
  then have "timed_out ex" using assms by simp
  then obtain detail where "except_clauses a ex = Raise (HTTPException 504 detail)"
    using except_clauses_504 assms(2) by blast
  then show ?thesis using Raises by (simp add: Let_def)
qed

lemma retry_loop_500:
  "hf a text model_name = Raises ex \<Longrightarrow> \<not> timed_out ex \<Longrightarrow>
   retry_loop hf text (a # rest) w =
     (Inl (HTTPException 500 (''AI Error: '' @ str_exn ex)), call_summarization text w)"
  by (simp add: Let_def except_clauses_500)

lemma retry_loop_skip:
  assumes "k < max_retries" "\<forall>i<k. timeout_failure (hf i text model_name)"
  shows "retry_loop hf text [0..<max_retries] w =
         retry_loop hf text [k..<max_retries]
           (w\<lparr>trace := trace w @
              concat (map (\<lambda>i. [Summarization text model_name, Sleep (10 * (i + 1))]) [0..<k])\<rparr>)"
  using assms
proof (induction k)
  case 0
  then show ?case by simp
next
  case (Suc k)
  let ?pre = "\<lambda>k. concat (map (\<lambda>i. [Summarization text model_name, Sleep (10 * (i + 1))]) [0..<k])"
  have IH: "retry_loop hf text [0..<max_retries] w =
         retry_loop hf text [k..<max_retries] (w\<lparr>trace := trace w @ ?pre k\<rparr>)"
    using Suc by simp
  have k: "k < max_retries - 1" using Suc.prems by simp
  have tf: "timeout_failure (hf k text model_name)" using Suc.prems by simp
  have "[k..<max_retries] = k # [Suc k..<max_retries]"
    using Suc.prems by (simp add: upt_conv_Cons)
  then have "retry_loop hf text [k..<max_retries] (w\<lparr>trace := trace w @ ?pre k\<rparr>)
     = retry_loop hf text [Suc k..<max_retries]
         (time_sleep (10 * (k + 1)) (call_summarization text (w\<lparr>trace := trace w @ ?pre k\<rparr>)))"
    using retry_loop_continue [of hf k "text", OF tf k] by simp
  moreover have "time_sleep (10 * (k + 1)) (call_summarization text (w\<lparr>trace := trace w @ ?pre k\<rparr>))
     = w\<lparr>trace := trace w @ ?pre (Suc k)\<rparr>"
    by (simp add: time_sleep_def call_summarization_def)
  ultimately show ?case using IH by simp
qed

lemma call_after_skip:
  "call_summarization text
     (w\<lparr>trace := trace w @
        concat (map (\<lambda>i. [Summarization text model_name, Sleep (10 * (i + 1))]) [0..<k])\<rparr>)
   = w\<lparr>trace := trace w @ spec_trace text (Suc k)\<rparr>"
  by (simp add: call_summarization_def spec_trace_def)

lemma retry_loop_success_at:
  assumes "k < max_retries" "\<forall>i<k. timeout_failure (hf i text model_name)"
    and "hf k text model_name = Returns s"
  shows "retry_loop hf text [0..<max_retries] w =
         (Inr s, w\<lparr>trace := trace w @ spec_trace text (Suc k)\<rparr>)"
proof -
  let ?w0 = "w\<lparr>trace := trace w @
      concat (map (\<lambda>i. [Summarization text model_name, Sleep (10 * (i + 1))]) [0..<k])\<rparr>"
  have upt: "[k..<max_retries] = k # [Suc k..<max_retries]"
    using assms(1) by (simp add: upt_conv_Cons)
  have "retry_loop hf text [0..<max_retries] w = retry_loop hf text [k..<max_retries] ?w0"
    by (rule retry_loop_skip [of k hf "text" w, OF assms(1,2)])
  also have "\<dots> = (Inr s, call_summarization text ?w0)"
    unfolding upt by (rule retry_loop_returns [of hf k "text" s, OF assms(3)])
  finally show ?thesis unfolding call_after_skip .
qed

lemma retry_loop_failure_at:
  assumes "k < max_retries" "\<forall>i<k. timeout_failure (hf i text model_name)"
    and "hf k text model_name = Raises ex" "\<not> timed_out ex"
  shows "retry_loop hf text [0..<max_retries] w =
         (Inl (HTTPException 500 (''AI Error: '' @ str_exn ex)),
          w\<lparr>trace := trace w @ spec_trace text (Suc k)\<rparr>)"
proof -
  let ?w0 = "w\<lparr>trace := trace w @
      concat (map (\<lambda>i. [Summarization text model_name, Sleep (10 * (i + 1))]) [0..<k])\<rparr>"
  have upt: "[k..<max_retries] = k # [Suc k..<max_retries]"
    using assms(1) by (simp add: upt_conv_Cons)
  have "retry_loop hf text [0..<max_retries] w = retry_loop hf text [k..<max_retries] ?w0"
    by (rule retry_loop_skip [of k hf "text" w, OF assms(1,2)])
  also have "\<dots> = (Inl (HTTPException 500 (''AI Error: '' @ str_exn ex)),
                     call_summarization text ?w0)"
    unfolding upt by (rule retry_loop_500 [of hf k "text" ex, OF assms(3,4)])
  finally show ?thesis unfolding call_after_skip .
qed

lemma retry_loop_exhausted:
  assumes "\<forall>i<max_retries. timeout_failure (hf i text model_name)"
  shows "\<exists>detail. retry_loop hf text [0..<max_retries] w =
         (Inl (HTTPException 504 detail),
          w\<lparr>trace := trace w @ spec_trace text max_retries\<rparr>)"
proof -
  let ?k = "max_retries - 1"
  let ?w0 = "w\<lparr>trace := trace w @
      concat (map (\<lambda>i. [Summarization text model_name, Sleep (10 * (i + 1))]) [0..<?k])\<rparr>"
  have k: "?k < max_retries" by (simp add: max_retries_def)
  have suc: "Suc ?k = max_retries" by (simp add: max_retries_def)
  have before: "\<forall>i<?k. timeout_failure (hf i text model_name)" using assms by simp
  have last: "timeout_failure (hf ?k text model_name)" using assms k by blast
  have upt: "[?k..<max_retries] = ?k # [Suc ?k..<max_retries]"
    using k by (simp add: upt_conv_Cons)
  obtain detail where stop:
    "retry_loop hf text (?k # [Suc ?k..<max_retries]) ?w0
     = (Inl (HTTPException 504 detail), call_summarization text ?w0)"
    using retry_loop_504 [of hf ?k "text" "[Suc ?k..<max_retries]" ?w0, OF last] by blast
  have "retry_loop hf text [0..<max_retries] w = retry_loop hf text [?k..<max_retries] ?w0"
    by (rule retry_loop_skip [of ?k hf "text" w, OF k before])
  also have "\<dots> = (Inl (HTTPException 504 detail), call_summarization text ?w0)"
    using upt stop by simp
  finally have "retry_loop hf text [0..<max_retries] w =
      (Inl (HTTPException 504 detail), w\<lparr>trace := trace w @ spec_trace text max_retries\<rparr>)"
    unfolding call_after_skip suc .
  then show ?thesis by blast
qed

lemma spec_trace_1: "spec_trace text 1 = [Summarization text model_name]"
  by (simp add: spec_trace_def)

lemma spec_trace_3:
  "spec_trace text 3 =
     [Summarization text model_name, Sleep 10, Summarization text model_name, Sleep 20,
      Summarization text model_name]"
  by (simp add: spec_trace_def upt_rec numeral_2_eq_2 numeral_3_eq_3)

lemma summarize_text_valid:
  assumes "text \<noteq> []" "length text \<le> max_length"
  shows "summarize_text e text w =
     (case retry_loop (hf_client e) text [0..<max_retries] w of
        (Inl err, w1) \<Rightarrow> (Inl err, w1)
      | (Inr summary_result, w1) \<Rightarrow>
          (Inr \<lparr>id_field = str_objectid (new_id e), summary = summary_result,
                 timestamp_field = utcnow e\<rparr>,
           w1\<lparr>collection := collection w1 @
              [(new_id e, \<lparr>original_text = text, summary_text = summary_result,
                            created_at = utcnow e\<rparr>)]\<rparr>))"
  using assms
  by (simp add: summarize_text_def insert_one_def Let_def split: prod.splits sum.splits)

lemma read_timed_out: "timed_out (Exception ''Read Timed Out.'')"
  by code_simp

lemma unauthorized_not_timed_out: "\<not> timed_out (Exception ''401 Unauthorized'')"
  by code_simp

lemma sample_text_valid: "''hello'' \<noteq> []" "length ''hello'' \<le> max_length"
  by (simp_all add: max_length_def)

lemma map_eq_infix:
  "(\<exists>ps ss. map f s = ps @ t @ ss) \<longleftrightarrow> (\<exists>ps u ss. s = ps @ u @ ss \<and> map f u = t)"
proof
  assume "\<exists>ps ss. map f s = ps @ t @ ss"
  then obtain ps ss where "map f s = ps @ (t @ ss)" by blast
  then have "\<exists>us vs. s = us @ vs \<and> ps = map f us \<and> t @ ss = map f vs"
    by (simp add: map_eq_append_conv)
  then obtain us vs where r: "s = us @ vs" "map f vs = t @ ss" by auto
  from r(2) have "\<exists>u v. vs = u @ v \<and> t = map f u \<and> ss = map f v"
    by (simp add: map_eq_append_conv)
  then obtain u v where "vs = u @ v" "map f u = t" by auto
  then show "\<exists>ps u ss. s = ps @ u @ ss \<and> map f u = t" using r(1) by blast
next
  assume "\<exists>ps u ss. s = ps @ u @ ss \<and> map f u = t"
  then obtain ps u ss where "s = ps @ u @ ss" "map f u = t" by blast
  then have "map f s = map f ps @ t @ map f ss" by simp
  then show "\<exists>ps ss. map f s = ps @ t @ ss" by blast
qed

lemma startswith_iff: "startswith s sub \<longleftrightarrow> (\<exists>ss. s = sub @ ss)"
  by (induction s sub rule: startswith.induct) auto

lemma str_in_iff: "str_in sub s \<longleftrightarrow> (\<exists>ps ss. s = ps @ sub @ ss)"
proof (induction s)
  case Nil
  then show ?case by auto
next
  case (Cons d s)
  show ?case
  proof
    assume "str_in sub (d # s)"
    then consider "startswith (d # s) sub" | "str_in sub s" by auto
    then show "\<exists>ps ss. d # s = ps @ sub @ ss"
    proof cases
      case 1
      then obtain ss where "d # s = sub @ ss" by (auto simp: startswith_iff)
      then have "d # s = [] @ sub @ ss" by simp
      then show ?thesis by blast
    next
      case 2
      then obtain ps ss where "s = ps @ sub @ ss" using Cons.IH by auto
      then have "d # s = (d # ps) @ sub @ ss" by simp
      then show ?thesis by blast
    qed
  next
    assume "\<exists>ps ss. d # s = ps @ sub @ ss"
    then obtain ps ss where eq: "d # s = ps @ sub @ ss" by blast
    show "str_in sub (d # s)"
    proof (cases ps)
      case Nil
      then have "startswith (d # s) sub" using eq by (auto simp: startswith_iff)
      then show ?thesis by simp
    next
      case (Cons p ps')
      then have "s = ps' @ sub @ ss" using eq by simp
      then have "str_in sub s" using Cons.IH by blast
      then show ?thesis by simp
    qed
  qed
qed

lemma timed_out_iff:
  "timed_out ex \<longleftrightarrow>
     (\<exists>m. ex = InferenceTimeoutError m) \<or>
     (\<exists>ps u ss. str_exn ex = ps @ u @ ss \<and> lower u = ''timed out'')"
proof (cases ex)
  case (InferenceTimeoutError m)
  then show ?thesis by simp
next
  case (Exception m)
  have "str_in ''timed out'' (lower m) \<longleftrightarrow>
        (\<exists>ps u ss. m = ps @ u @ ss \<and> lower u = ''timed out'')"
    unfolding str_in_iff lower_def by (rule map_eq_infix)
  then show ?thesis using Exception by simp
qed

lemma summarize_text_cases:
  assumes "text \<noteq> []" "length text \<le> max_length"
  obtains
    (success) k s where "k < max_retries"
      "\<forall>i<k. timeout_failure (hf_client e i text model_name)"
      "hf_client e k text model_name = Returns s"
      "summarize_text e text w =
         (Inr \<lparr>id_field = str_objectid (new_id e), summary = s, timestamp_field = utcnow e\<rparr>,
          \<lparr>collection = collection w @
             [(new_id e, \<lparr>original_text = text, summary_text = s, created_at = utcnow e\<rparr>)],
           trace = trace w @ spec_trace text (Suc k)\<rparr>)"
  | (failure) k ex where "k < max_retries"
      "\<forall>i<k. timeout_failure (hf_client e i text model_name)"
      "hf_client e k text model_name = Raises ex" "\<not> timed_out ex"
      "summarize_text e text w =
         (Inl (HTTPException 500 (''AI Error: '' @ str_exn ex)),
          \<lparr>collection = collection w, trace = trace w @ spec_trace text (Suc k)\<rparr>)"
  | (exhausted) detail where
      "\<forall>i<max_retries. timeout_failure (hf_client e i text model_name)"
      "summarize_text e text w =
         (Inl (HTTPException 504 detail),
          \<lparr>collection = collection w, trace = trace w @ spec_trace text max_retries\<rparr>)"
proof (cases "\<forall>i<max_retries. timeout_failure (hf_client e i text model_name)")
  case True
  then obtain detail where "retry_loop (hf_client e) text [0..<max_retries] w =
       (Inl (HTTPException 504 detail), w\<lparr>trace := trace w @ spec_trace text max_retries\<rparr>)"
    using retry_loop_exhausted [of "hf_client e" "text" w] by blast
  then have "summarize_text e text w =
         (Inl (HTTPException 504 detail),
          \<lparr>collection = collection w, trace = trace w @ spec_trace text max_retries\<rparr>)"
    by (simp add: summarize_text_valid [OF assms])
  then show ?thesis using True exhausted by blast
next
  case False
  define k where "k = (LEAST i. \<not> timeout_failure (hf_client e i text model_name))"
  from False obtain j where j: "j < max_retries"
      "\<not> timeout_failure (hf_client e j text model_name)"
    by blast
  have here: "\<not> timeout_failure (hf_client e k text model_name)"
    unfolding k_def using j(2) by (rule LeastI)
  have "k \<le> j" unfolding k_def using j(2) by (rule Least_le)
  then have k: "k < max_retries" using j(1) by simp
  have before: "\<forall>i<k. timeout_failure (hf_client e i text model_name)"
    unfolding k_def using not_less_Least by blast
  show ?thesis
  proof (cases "hf_client e k text model_name")
    case (Returns s)
    have "retry_loop (hf_client e) text [0..<max_retries] w =
            (Inr s, w\<lparr>trace := trace w @ spec_trace text (Suc k)\<rparr>)"
      by (rule retry_loop_success_at [of k "hf_client e" "text" s w, OF k before Returns])
    then have "summarize_text e text w =
         (Inr \<lparr>id_field = str_objectid (new_id e), summary = s, timestamp_field = utcnow e\<rparr>,
          \<lparr>collection = collection w @
             [(new_id e, \<lparr>original_text = text, summary_text = s, created_at = utcnow e\<rparr>)],
           trace = trace w @ spec_trace text (Suc k)\<rparr>)"
      by (simp add: summarize_text_valid [OF assms])
    then show ?thesis using k before Returns success by blast
  next
    case (Raises ex)
    then have nt: "\<not> timed_out ex" using here by simp
    have "retry_loop (hf_client e) text [0..<max_retries] w =
            (Inl (HTTPException 500 (''AI Error: '' @ str_exn ex)),
             w\<lparr>trace := trace w @ spec_trace text (Suc k)\<rparr>)"
      by (rule retry_loop_failure_at [of k "hf_client e" "text" ex w, OF k before Raises nt])
    then have "summarize_text e text w =
         (Inl (HTTPException 500 (''AI Error: '' @ str_exn ex)),
          \<lparr>collection = collection w, trace = trace w @ spec_trace text (Suc k)\<rparr>)"
      by (simp add: summarize_text_valid [OF assms])
    then show ?thesis using k before Raises nt failure by blast
  qed
qed


lemma flaky_run:
  "summarize_text (sample_env flaky_client) ''hello'' empty_world =
     (Inr \<lparr>id_field = ''65a1b2c3d4e5f60718293a4b'', summary = ''short'',
            timestamp_field = 1700000000\<rparr>,
      \<lparr>collection = [(ObjectId ''65a1b2c3d4e5f60718293a4b'',
                       \<lparr>original_text = ''hello'', summary_text = ''short'',
                        created_at = 1700000000\<rparr>)],
       trace = [Summarization ''hello'' model_name, Sleep 10,
                Summarization ''hello'' model_name, Sleep 20,
                Summarization ''hello'' model_name]\<rparr>)"
  using read_timed_out
  by (simp add: summarize_text_def sample_env_def flaky_client_def empty_world_def
      max_length_def max_retries_def upt_rec insert_one_def call_summarization_def
      time_sleep_def Let_def)

lemma flaky_handle:
  "handle (sample_env flaky_client) (PostSummarize ''hello'') empty_world =
     (Inr (SummarizeBody \<lparr>id_field = ''65a1b2c3d4e5f60718293a4b'', summary = ''short'',
            timestamp_field = 1700000000\<rparr>),
      \<lparr>collection = [(ObjectId ''65a1b2c3d4e5f60718293a4b'',
                       \<lparr>original_text = ''hello'', summary_text = ''short'',
                        created_at = 1700000000\<rparr>)],
       trace = [Summarization ''hello'' model_name, Sleep 10,
                Summarization ''hello'' model_name, Sleep 20,
                Summarization ''hello'' model_name]\<rparr>)"
  by (simp add: flaky_run)

lemma mset_sort_desc: "mset (sort_desc ds) = mset ds"
  by (simp add: sort_desc_def)

lemma sorted_sort_desc:
  "sorted_wrt (\<lambda>a b. created_at (snd a) \<ge> created_at (snd b)) (sort_desc ds)"
proof -
  have "sorted (map (\<lambda>d. created_at (snd d)) (sort_key (\<lambda>d. created_at (snd d)) ds))"
    by (rule sorted_sort_key)
  then have "sorted_wrt (\<lambda>a b. created_at (snd a) \<le> created_at (snd b))
               (sort_key (\<lambda>d. created_at (snd d)) ds)"
    by (simp add: sorted_map)
  then show ?thesis by (simp add: sort_desc_def sorted_wrt_rev)
qed

lemma sorted_projected:
  "sorted_wrt (\<lambda>a b. created_at a \<ge> created_at b) (map project (sort_desc ds))"
  using sorted_sort_desc [of ds] by (simp add: sorted_wrt_map project_def)

lemma mset_projected: "mset (map project (sort_desc ds)) = mset (map project ds)"
  using mset_sort_desc [of ds] by (metis mset_map)

lemma get_history_limited:
  assumes "limit \<noteq> 0" and "\<bar>limit\<bar> \<le> max_int64"
  shows "get_history limit w =
     Inr \<lparr>count_field = length (take (nat \<bar>limit\<bar>) (map project (sort_desc (collection w)))),
          data = take (nat \<bar>limit\<bar>) (map project (sort_desc (collection w)))\<rparr>"
  using assms by (simp add: get_history_def limit_cursor_def Let_def take_map)

lemma get_history_unlimited:
  "get_history 0 w =
     Inr \<lparr>count_field = length (collection w),
          data = map project (sort_desc (collection w))\<rparr>"
  by (simp add: get_history_def limit_cursor_def Let_def sort_desc_def)

lemma get_history_overflow:
  "\<bar>limit\<bar> > max_int64 \<Longrightarrow> get_history limit w = Inl OverflowError"
  by (auto simp: get_history_def limit_cursor_def max_int64_def)

lemma sample_history_2:
  "get_history 2 sample_store =
     Inr \<lparr>count_field = 2,
          data = [\<lparr>original_text = ''third'', summary_text = ''s3'', created_at = 30\<rparr>,
                  \<lparr>original_text = ''second'', summary_text = ''s2'', created_at = 20\<rparr>]\<rparr>"
  by (simp add: get_history_def sample_store_def limit_cursor_def sort_desc_def project_def
      max_int64_def Let_def)

lemma sample_history_0:
  "get_history 0 sample_store =
     Inr \<lparr>count_field = 3,
          data = [\<lparr>original_text = ''third'', summary_text = ''s3'', created_at = 30\<rparr>,
                  \<lparr>original_text = ''second'', summary_text = ''s2'', created_at = 20\<rparr>,
                  \<lparr>original_text = ''first'', summary_text = ''s1'', created_at = 10\<rparr>]\<rparr>"
  by (simp add: get_history_def sample_store_def limit_cursor_def sort_desc_def project_def
      Let_def)

section \<open>Properties\<close>

text \<open>
  C1. A request whose text passes validation makes \<open>n\<close> inference calls with
  \<open>1 \<le> n \<le> 3\<close>. Its trace is the specified one: each of the attempts
  \<open>i < n - 1\<close> failed with a timeout and is followed by a sleep of exactly
  \<open>10 * (i + 1)\<close> seconds and then the next attempt, and nothing follows the last
  attempt: no sleep after a success, after another error, or after the third attempt.
  When fewer than 3 attempts were made, the last one was no timeout failure, so a timeout
  with attempts remaining is always retried.
\<close>

theorem retry_schedule:
  assumes "text \<noteq> []" and "length text \<le> max_length"
  shows "\<exists>n. 1 \<le> n \<and> n \<le> 3 \<and>
           trace (snd (summarize_text e text w)) = trace w @ spec_trace text n \<and>
           (\<forall>i<n - 1. timeout_failure (hf_client e i text model_name)) \<and>
           (n < 3 \<longrightarrow> \<not> timeout_failure (hf_client e (n - 1) text model_name))"
proof -
  let ?hf = "hf_client e"
  let ?P = "\<lambda>n. 1 \<le> n \<and> n \<le> 3 \<and>
           trace (snd (summarize_text e text w)) = trace w @ spec_trace text n \<and>
           (\<forall>i<n - 1. timeout_failure (?hf i text model_name)) \<and>
           (n < 3 \<longrightarrow> \<not> timeout_failure (?hf (n - 1) text model_name))"
  have stop: "?P (Suc k)"
    if k: "k < max_retries" and before: "\<forall>i<k. timeout_failure (?hf i text model_name)"
      and here: "\<not> timeout_failure (?hf k text model_name)" for k
  proof (cases "?hf k text model_name")
    case (Returns s)
    have "retry_loop ?hf text [0..<max_retries] w =
            (Inr s, w\<lparr>trace := trace w @ spec_trace text (Suc k)\<rparr>)"
      by (rule retry_loop_success_at [of k ?hf "text" s w, OF k before Returns])
    then have "trace (snd (summarize_text e text w)) = trace w @ spec_trace text (Suc k)"
      by (simp add: summarize_text_valid [OF assms])
    then show ?thesis using k before here by (simp add: max_retries_def)
  next
    case (Raises ex)
    then have "\<not> timed_out ex" using here by simp
    then have "retry_loop ?hf text [0..<max_retries] w =
            (Inl (HTTPException 500 (''AI Error: '' @ str_exn ex)),
             w\<lparr>trace := trace w @ spec_trace text (Suc k)\<rparr>)"
      using retry_loop_failure_at [of k ?hf "text" ex w, OF k before Raises] by simp
    then have "trace (snd (summarize_text e text w)) = trace w @ spec_trace text (Suc k)"
      by (simp add: summarize_text_valid [OF assms])
    then show ?thesis using k before here by (simp add: max_retries_def)
  qed
  show ?thesis
  proof (cases "\<forall>i<max_retries. timeout_failure (?hf i text model_name)")
    case True
    then obtain detail where "retry_loop ?hf text [0..<max_retries] w =
         (Inl (HTTPException 504 detail), w\<lparr>trace := trace w @ spec_trace text max_retries\<rparr>)"
      using retry_loop_exhausted [of ?hf "text" w] by blast
    then have "trace (snd (summarize_text e text w)) = trace w @ spec_trace text 3"
      by (simp add: summarize_text_valid [OF assms] max_retries_def)
    then have "?P 3" using True by (simp add: max_retries_def)
    then show ?thesis by blast
  next
    case False
    define k where "k = (LEAST i. \<not> timeout_failure (?hf i text model_name))"
    from False obtain j where j: "j < max_retries" "\<not> timeout_failure (?hf j text model_name)"
      by blast
    have here: "\<not> timeout_failure (?hf k text model_name)"
      unfolding k_def using j(2) by (rule LeastI)
    have "k \<le> j" unfolding k_def using j(2) by (rule Least_le)
    then have k: "k < max_retries" using j(1) by simp
    have before: "\<forall>i<k. timeout_failure (?hf i text model_name)"
      unfolding k_def using not_less_Least by blast
    have "?P (Suc k)" using stop [OF k before here] .
    then show ?thesis by blast
  qed
qed

theorem retry_schedule_witness:
  "''hello'' \<noteq> [] \<and> length ''hello'' \<le> max_length \<and>
   trace (snd (summarize_text (sample_env flaky_client) ''hello'' empty_world)) =
     [Summarization ''hello'' model_name, Sleep 10,
      Summarization ''hello'' model_name, Sleep 20,
      Summarization ''hello'' model_name] \<and>
   (\<exists>n. 1 \<le> n \<and> n \<le> 3 \<and>
      trace (snd (summarize_text (sample_env flaky_client) ''hello'' empty_world)) =
        trace empty_world @ spec_trace ''hello'' n \<and>
      (\<forall>i<n - 1. timeout_failure (hf_client (sample_env flaky_client) i ''hello'' model_name)) \<and>
      (n < 3 \<longrightarrow>
         \<not> timeout_failure (hf_client (sample_env flaky_client) (n - 1) ''hello'' model_name)))"
proof -
  have run: "trace (snd (summarize_text (sample_env flaky_client) ''hello'' empty_world)) =
     [Summarization ''hello'' model_name, Sleep 10,
      Summarization ''hello'' model_name, Sleep 20,
      Summarization ''hello'' model_name]"
    using read_timed_out
    by (simp add: summarize_text_def sample_env_def flaky_client_def empty_world_def
        max_length_def max_retries_def upt_rec insert_one_def call_summarization_def
        time_sleep_def Let_def)
  show ?thesis
    using run sample_text_valid
      retry_schedule [OF sample_text_valid, of "sample_env flaky_client" empty_world]
    by blast
qed

text \<open>
  C9. In every response of the history endpoint, for every limit and every state of the
  collection, the count field is the number of elements of the data list. (A request
  that ends in an error has no response body, so no count.)
\<close>

theorem history_count_is_length:
  "get_history limit w = Inr r \<Longrightarrow> count_field r = length (data r)"
  by (auto simp: get_history_def limit_cursor_def Let_def split: if_splits)

theorem history_count_is_length_witness:
  "get_history 2 sample_store =
     Inr \<lparr>count_field = 2,
          data = [\<lparr>original_text = ''third'', summary_text = ''s3'', created_at = 30\<rparr>,
                  \<lparr>original_text = ''second'', summary_text = ''s2'', created_at = 20\<rparr>]\<rparr> \<and>
   (2::nat) = length [\<lparr>original_text = ''third'', summary_text = ''s3'', created_at = 30\<rparr>,
                     \<lparr>original_text = ''second'', summary_text = ''s2'', created_at = 20\<rparr>]"
  using sample_history_2 history_count_is_length [OF sample_history_2] by simp

text \<open>
  C2. The handler treats an exception of the inference call as a timeout (it sleeps and
  continues the loop, or on the last attempt raises 504) if and only if the exception is
  the typed \<open>InferenceTimeoutError\<close> or its message has a substring that, lowered,
  is \<open>timed out\<close>. Every other exception is a generic failure: the handler raises
  500 with the detail \<open>AI Error: \<close> followed by the message.
\<close>

theorem exception_classification:
  "(((\<exists>wait_time. except_clauses attempt ex = Continue wait_time) \<or>
     (\<exists>detail. except_clauses attempt ex = Raise (HTTPException 504 detail)))
    \<longleftrightarrow>
    ((\<exists>m. ex = InferenceTimeoutError m) \<or>
     (\<exists>ps u ss. str_exn ex = ps @ u @ ss \<and> lower u = ''timed out'')))
   \<and>
   (\<not> ((\<exists>m. ex = InferenceTimeoutError m) \<or>
        (\<exists>ps u ss. str_exn ex = ps @ u @ ss \<and> lower u = ''timed out''))
    \<longrightarrow> except_clauses attempt ex =
          Raise (HTTPException 500 (''AI Error: '' @ str_exn ex)))"
proof (cases "timed_out ex")
  case True
  have "(\<exists>wait_time. except_clauses attempt ex = Continue wait_time) \<or>
        (\<exists>detail. except_clauses attempt ex = Raise (HTTPException 504 detail))"
    using except_clauses_continue [OF True, of attempt] except_clauses_504 [OF True, of attempt]
    by blast
  then show ?thesis using True unfolding timed_out_iff by blast
next
  case False
  then have "except_clauses attempt ex = Raise (HTTPException 500 (''AI Error: '' @ str_exn ex))"
    by (rule except_clauses_500)
  then show ?thesis using False unfolding timed_out_iff by simp
qed

theorem exception_classification_witness:
  "except_clauses 0 (Exception ''Read Timed Out.'') = Continue 10 \<and>
   (\<exists>ps u ss. ''Read Timed Out.'' = ps @ u @ ss \<and> lower u = ''timed out'') \<and>
   except_clauses 0 (Exception ''401 Unauthorized'') =
     Raise (HTTPException 500 ''AI Error: 401 Unauthorized'')"
proof -
  have a: "except_clauses 0 (Exception ''Read Timed Out.'') = Continue 10"
    using read_timed_out by (simp add: max_retries_def)
  have b: "except_clauses 0 (Exception ''401 Unauthorized'') =
     Raise (HTTPException 500 ''AI Error: 401 Unauthorized'')"
    using unauthorized_not_timed_out by simp
  show ?thesis
    using a b exception_classification [of 0 "Exception ''Read Timed Out.''"]
    by auto
qed



text \<open>
  C4. If the text is valid and all three attempts fail with a timeout-classified error,
  the response is a 504 error, the collection is unchanged, and the handler has slept 10
  seconds after the first attempt and 20 seconds after the second.
\<close>

theorem all_attempts_time_out:
  assumes "text \<noteq> []" and "length text \<le> max_length"
    and "\<forall>i<3. timeout_failure (hf_client e i text model_name)"
  shows "status_code (fst (summarize_text e text w)) = 504 \<and>
         collection (snd (summarize_text e text w)) = collection w \<and>
         trace (snd (summarize_text e text w)) =
           trace w @ [Summarization text model_name, Sleep 10,
                      Summarization text model_name, Sleep 20,
                      Summarization text model_name]"
proof -
  have "\<forall>i<max_retries. timeout_failure (hf_client e i text model_name)"
    using assms(3) by (simp add: max_retries_def)
  then obtain detail where "retry_loop (hf_client e) text [0..<max_retries] w =
       (Inl (HTTPException 504 detail), w\<lparr>trace := trace w @ spec_trace text max_retries\<rparr>)"
    using retry_loop_exhausted [of "hf_client e" "text" w] by blast
  then have "summarize_text e text w =
       (Inl (HTTPException 504 detail), w\<lparr>trace := trace w @ spec_trace text 3\<rparr>)"
    by (simp add: summarize_text_valid [OF assms(1,2)] max_retries_def)
  then show ?thesis by (simp add: spec_trace_3)
qed

theorem all_attempts_time_out_witness:
  "''hello'' \<noteq> [] \<and> length ''hello'' \<le> max_length \<and>
   timeout_failure (hf_client (sample_env cold_client) 0 ''hello'' model_name) \<and>
   timeout_failure (hf_client (sample_env cold_client) 1 ''hello'' model_name) \<and>
   timeout_failure (hf_client (sample_env cold_client) 2 ''hello'' model_name) \<and>
   status_code (fst (summarize_text (sample_env cold_client) ''hello'' empty_world)) = 504 \<and>
   collection (snd (summarize_text (sample_env cold_client) ''hello'' empty_world)) = [] \<and>
   trace (snd (summarize_text (sample_env cold_client) ''hello'' empty_world)) =
     [Summarization ''hello'' model_name, Sleep 10,
      Summarization ''hello'' model_name, Sleep 20,
      Summarization ''hello'' model_name]"
proof -
  have h: "\<forall>i<3. timeout_failure (hf_client (sample_env cold_client) i ''hello'' model_name)"
    by (simp add: sample_env_def cold_client_def)
  show ?thesis
    using h sample_text_valid
      all_attempts_time_out [OF sample_text_valid h, of empty_world]
    by (simp add: empty_world_def)
qed

text \<open>
  C5. If the text is valid and attempt \<open>k\<close> raises an error that is no timeout (the
  attempts before it having timed out), the response is a 500 error whose detail is
  \<open>AI Error: \<close> followed by the message of that error, the collection is unchanged, and
  the failing call is the last event of the trace: no further attempt and no sleep
  follow it. When the error comes on the first attempt, the request makes this one call
  and never sleeps.
\<close>

theorem non_timeout_error:
  assumes "text \<noteq> []" and "length text \<le> max_length"
    and "k < 3" and "\<forall>i<k. timeout_failure (hf_client e i text model_name)"
    and "hf_client e k text model_name = Raises ex" and "\<not> timed_out ex"
  shows "fst (summarize_text e text w) =
           Inl (HTTPException 500 (''AI Error: '' @ str_exn ex)) \<and>
         collection (snd (summarize_text e text w)) = collection w \<and>
         trace (snd (summarize_text e text w)) = trace w @ spec_trace text (Suc k) \<and>
         (k = 0 \<longrightarrow> trace (snd (summarize_text e text w)) =
                       trace w @ [Summarization text model_name])"
proof -
  have k: "k < max_retries" using assms(3) by (simp add: max_retries_def)
  have "retry_loop (hf_client e) text [0..<max_retries] w =
          (Inl (HTTPException 500 (''AI Error: '' @ str_exn ex)),
           w\<lparr>trace := trace w @ spec_trace text (Suc k)\<rparr>)"
    by (rule retry_loop_failure_at [of k "hf_client e" "text" ex w, OF k assms(4,5,6)])
  then have "summarize_text e text w =
          (Inl (HTTPException 500 (''AI Error: '' @ str_exn ex)),
           w\<lparr>trace := trace w @ spec_trace text (Suc k)\<rparr>)"
    by (simp add: summarize_text_valid [OF assms(1,2)])
  then show ?thesis using spec_trace_1 [of "text"] by simp
qed

theorem non_timeout_error_witness:
  "''hello'' \<noteq> [] \<and> length ''hello'' \<le> max_length \<and> (0::nat) < 3 \<and>
   hf_client (sample_env broken_client) 0 ''hello'' model_name =
     Raises (Exception ''401 Unauthorized'') \<and>
   \<not> timed_out (Exception ''401 Unauthorized'') \<and>
   fst (summarize_text (sample_env broken_client) ''hello'' empty_world) =
     Inl (HTTPException 500 ''AI Error: 401 Unauthorized'') \<and>
   collection (snd (summarize_text (sample_env broken_client) ''hello'' empty_world)) = [] \<and>
   trace (snd (summarize_text (sample_env broken_client) ''hello'' empty_world)) =
     [Summarization ''hello'' model_name]"
proof -
  have k: "(0::nat) < 3" by simp
  have before: "\<forall>i<0. timeout_failure (hf_client (sample_env broken_client) i ''hello'' model_name)"
    by simp
  have here: "hf_client (sample_env broken_client) 0 ''hello'' model_name =
     Raises (Exception ''401 Unauthorized'')"
    by (simp add: sample_env_def broken_client_def)
  show ?thesis
    using here unauthorized_not_timed_out sample_text_valid
      non_timeout_error [OF sample_text_valid k before here unauthorized_not_timed_out,
        of empty_world]
    by (simp add: empty_world_def spec_trace_def)
qed

text \<open>
  C6. If the text is valid and attempt \<open>k < 3\<close> succeeds after \<open>k\<close> timeouts, the
  response has status 200 and carries the string of the inserted id, the summary that
  this call returned and the creation timestamp, and exactly one document is appended to
  the collection, pairing the request text with that summary.
\<close>

theorem success_after_timeouts:
  assumes "text \<noteq> []" and "length text \<le> max_length"
    and "k < 3" and "\<forall>i<k. timeout_failure (hf_client e i text model_name)"
    and "hf_client e k text model_name = Returns s"
  shows "status_code (fst (summarize_text e text w)) = 200 \<and>
         fst (summarize_text e text w) =
           Inr \<lparr>id_field = str_objectid (new_id e), summary = s,
                 timestamp_field = utcnow e\<rparr> \<and>
         collection (snd (summarize_text e text w)) =
           collection w @
             [(new_id e, \<lparr>original_text = text, summary_text = s, created_at = utcnow e\<rparr>)]"
proof -
  have k: "k < max_retries" using assms(3) by (simp add: max_retries_def)
  have "retry_loop (hf_client e) text [0..<max_retries] w =
          (Inr s, w\<lparr>trace := trace w @ spec_trace text (Suc k)\<rparr>)"
    by (rule retry_loop_success_at [of k "hf_client e" "text" s w, OF k assms(4,5)])
  then show ?thesis by (simp add: summarize_text_valid [OF assms(1,2)])
qed

theorem success_after_timeouts_witness:
  "''hello'' \<noteq> [] \<and> length ''hello'' \<le> max_length \<and> (2::nat) < 3 \<and>
   timeout_failure (hf_client (sample_env flaky_client) 0 ''hello'' model_name) \<and>
   timeout_failure (hf_client (sample_env flaky_client) 1 ''hello'' model_name) \<and>
   hf_client (sample_env flaky_client) 2 ''hello'' model_name = Returns ''short'' \<and>
   status_code (fst (summarize_text (sample_env flaky_client) ''hello'' empty_world)) = 200 \<and>
   fst (summarize_text (sample_env flaky_client) ''hello'' empty_world) =
     Inr \<lparr>id_field = ''65a1b2c3d4e5f60718293a4b'', summary = ''short'',
           timestamp_field = 1700000000\<rparr> \<and>
   collection (snd (summarize_text (sample_env flaky_client) ''hello'' empty_world)) =
     [(ObjectId ''65a1b2c3d4e5f60718293a4b'',
       \<lparr>original_text = ''hello'', summary_text = ''short'', created_at = 1700000000\<rparr>)]"
proof -
  have k: "(2::nat) < 3" by simp
  have before: "\<forall>i<2. timeout_failure (hf_client (sample_env flaky_client) i ''hello'' model_name)"
    using read_timed_out by (simp add: sample_env_def flaky_client_def)
  have here: "hf_client (sample_env flaky_client) 2 ''hello'' model_name = Returns ''short''"
    by (simp add: sample_env_def flaky_client_def)
  show ?thesis
    using before here sample_text_valid
      success_after_timeouts [OF sample_text_valid k before here, of empty_world]
    by (simp add: empty_world_def sample_env_def)
qed

text \<open>
  C7. For every request to any of the three endpoints, the collection afterwards is the
  collection before, or the collection before with one document appended; in the second
  case the request is a summarize request with a valid, non-empty text that is the
  document's \<open>original_text\<close>, the document's \<open>summary_text\<close> was returned by one
  of the inference calls, and the response is 200. So a response other than 200 leaves
  the collection unchanged, no request changes or removes a stored document, and a
  collection whose documents all have a non-empty \<open>original_text\<close> stays so.
\<close>

theorem inserts_only_successful_summaries:
  assumes "handle e r w = (resp, w')"
  shows "(collection w' = collection w \<or>
          (\<exists>text s k. r = PostSummarize text \<and> text \<noteq> [] \<and> length text \<le> 1024 \<and>
             k < 3 \<and> hf_client e k text model_name = Returns s \<and>
             status_code resp = 200 \<and>
             collection w' = collection w @
               [(new_id e, \<lparr>original_text = text, summary_text = s,
                              created_at = utcnow e\<rparr>)])) \<and>
         (status_code resp \<noteq> 200 \<longrightarrow> collection w' = collection w) \<and>
         ((\<forall>d\<in>set (collection w). original_text (snd d) \<noteq> []) \<longrightarrow>
          (\<forall>d\<in>set (collection w'). original_text (snd d) \<noteq> []))"
proof -
  have main: "collection w' = collection w \<or>
          (\<exists>text s k. r = PostSummarize text \<and> text \<noteq> [] \<and> length text \<le> 1024 \<and>
             k < 3 \<and> hf_client e k text model_name = Returns s \<and>
             status_code resp = 200 \<and>
             collection w' = collection w @
               [(new_id e, \<lparr>original_text = text, summary_text = s,
                              created_at = utcnow e\<rparr>)])"
  proof (cases r)
    case GetRoot
    then show ?thesis using assms by simp
  next
    case (GetHistory query_limit)
    then show ?thesis using assms by (auto split: sum.splits)
  next
    case (PostSummarize inp)
    show ?thesis
    proof (cases "inp \<noteq> [] \<and> length inp \<le> max_length")
      case False
      then have "summarize_text e inp w \<in>
         {(Inl (HTTPException 400 ''Text cannot be empty''), w),
          (Inl (HTTPException 400 ''Text too long. Maximum 1024 characters allowed.''), w)}"
        by (auto simp: summarize_text_def)
      then show ?thesis using assms PostSummarize by auto
    next
      case True
      then have valid: "inp \<noteq> []" "length inp \<le> max_length" by simp_all
      show ?thesis
      proof (rule summarize_text_cases [OF valid, of e w], goal_cases)
        case (1 k s)
        then show ?thesis
          using assms PostSummarize valid by (auto simp: max_length_def max_retries_def)
      next
        case (2 k ex)
        then show ?thesis using assms PostSummarize by auto
      next
        case (3 detail)
        then show ?thesis using assms PostSummarize by auto
      qed
    qed
  qed
  then show ?thesis by auto
qed

theorem inserts_only_successful_summaries_witness:
  "handle (sample_env flaky_client) (PostSummarize ''hello'') empty_world =
     (Inr (SummarizeBody \<lparr>id_field = ''65a1b2c3d4e5f60718293a4b'', summary = ''short'',
            timestamp_field = 1700000000\<rparr>),
      \<lparr>collection = [(ObjectId ''65a1b2c3d4e5f60718293a4b'',
                       \<lparr>original_text = ''hello'', summary_text = ''short'',
                        created_at = 1700000000\<rparr>)],
       trace = [Summarization ''hello'' model_name, Sleep 10,
                Summarization ''hello'' model_name, Sleep 20,
                Summarization ''hello'' model_name]\<rparr>) \<and>
   (\<exists>s k. k < 3 \<and> hf_client (sample_env flaky_client) k ''hello'' model_name = Returns s \<and>
      [(ObjectId ''65a1b2c3d4e5f60718293a4b'',
        \<lparr>original_text = ''hello'', summary_text = ''short'', created_at = 1700000000\<rparr>)] =
      collection empty_world @
        [(new_id (sample_env flaky_client),
          \<lparr>original_text = ''hello'', summary_text = s,
           created_at = utcnow (sample_env flaky_client)\<rparr>)])"
  using flaky_handle inserts_only_successful_summaries [OF flaky_handle]
  by (auto simp: empty_world_def)

text \<open>
  C8, as amended. For every collection and every positive limit below \<open>2 ^ 63\<close>, the
  history endpoint answers with status 200 and changes nothing. Its data list is the
  first \<open>limit\<close> elements of a list that holds every stored record exactly once, each
  without its \<open>_id\<close>, sorted by \<open>created_at\<close> descending; so it has at most \<open>limit\<close>
  elements. On an empty collection the count is 0 and the data list is empty. A request
  without a limit is answered as one with the limit 10.
\<close>

theorem history_positive_limit:
  assumes "0 < limit" and "limit < 2 ^ 63"
  shows "\<exists>r. get_history limit w = Inr r \<and>
           handle e (GetHistory (Some limit)) w = (Inr (HistoryBody r), w) \<and>
           status_code (fst (handle e (GetHistory (Some limit)) w)) = 200 \<and>
           (\<exists>newest_first.
              mset newest_first = mset (map project (collection w)) \<and>
              sorted_wrt (\<lambda>a b. created_at a \<ge> created_at b) newest_first \<and>
              data r = take (nat limit) newest_first) \<and>
           int (length (data r)) \<le> limit \<and>
           (collection w = [] \<longrightarrow> count_field r = 0 \<and> data r = []) \<and>
           handle e (GetHistory None) w = handle e (GetHistory (Some 10)) w"
proof -
  let ?history = "take (nat limit) (map project (sort_desc (collection w)))"
  let ?r = "\<lparr>count_field = length ?history, data = ?history\<rparr>"
  have "limit \<noteq> 0" "\<bar>limit\<bar> \<le> max_int64"
    using assms by (simp_all add: max_int64_def)
  then have "get_history limit w =
      Inr \<lparr>count_field = length (take (nat \<bar>limit\<bar>) (map project (sort_desc (collection w)))),
           data = take (nat \<bar>limit\<bar>) (map project (sort_desc (collection w)))\<rparr>"
    by (rule get_history_limited)
  then have g: "get_history limit w = Inr ?r"
    using assms(1) by simp
  have h: "handle e (GetHistory (Some limit)) w = (Inr (HistoryBody ?r), w)"
    using g by simp
  have sorted_all: "\<exists>newest_first.
              mset newest_first = mset (map project (collection w)) \<and>
              sorted_wrt (\<lambda>a b. created_at a \<ge> created_at b) newest_first \<and>
              data ?r = take (nat limit) newest_first"
  proof (intro exI conjI)
    show "mset (map project (sort_desc (collection w))) = mset (map project (collection w))"
      by (rule mset_projected)
    show "sorted_wrt (\<lambda>a b. created_at a \<ge> created_at b)
            (map project (sort_desc (collection w)))"
      by (rule sorted_projected)
    show "data ?r = take (nat limit) (map project (sort_desc (collection w)))"
      by simp
  qed
  have len: "int (length (data ?r)) \<le> limit"
    using assms(1) by simp
  have empty: "collection w = [] \<longrightarrow> count_field ?r = 0 \<and> data ?r = []"
    by (simp add: sort_desc_def)
  have dflt: "handle e (GetHistory None) w = handle e (GetHistory (Some 10)) w"
    by (simp add: default_limit_def)
  show ?thesis
    using g h sorted_all len empty dflt by (intro exI [of _ ?r]) simp
qed

theorem history_positive_limit_witness:
  "(0::int) < 2 \<and> (2::int) < 2 ^ 63 \<and>
   get_history 2 sample_store =
     Inr \<lparr>count_field = 2,
          data = [\<lparr>original_text = ''third'', summary_text = ''s3'', created_at = 30\<rparr>,
                  \<lparr>original_text = ''second'', summary_text = ''s2'', created_at = 20\<rparr>]\<rparr> \<and>
   (\<exists>r. get_history 2 sample_store = Inr r \<and>
        handle (sample_env flaky_client) (GetHistory (Some 2)) sample_store =
          (Inr (HistoryBody r), sample_store) \<and>
        status_code (fst (handle (sample_env flaky_client) (GetHistory (Some 2)) sample_store))
          = 200 \<and>
        (\<exists>newest_first.
           mset newest_first = mset (map project (collection sample_store)) \<and>
           sorted_wrt (\<lambda>a b. created_at a \<ge> created_at b) newest_first \<and>
           data r = take (nat 2) newest_first) \<and>
        int (length (data r)) \<le> 2)"
proof -
  have pos: "(0::int) < 2" by simp
  have bound: "(2::int) < 2 ^ 63" by simp
  show ?thesis
    using pos bound sample_history_2
      history_positive_limit [OF pos bound, of sample_store "sample_env flaky_client"]
    by blast
qed

text \<open>
  The claim as it was written, for every positive limit, fails at the limit \<open>2 ^ 63\<close>:
  the driver raises \<open>OverflowError\<close> and the endpoint answers 500.
\<close>

theorem history_huge_limit_counterexample:
  "(0::int) < 9223372036854775808 \<and>
   fst (handle (sample_env flaky_client) (GetHistory (Some 9223372036854775808)) sample_store)
     = Inl OverflowError \<and>
   status_code
     (fst (handle (sample_env flaky_client) (GetHistory (Some 9223372036854775808)) sample_store))
     \<noteq> 200"
proof -
  have "\<bar>9223372036854775808::int\<bar> > max_int64"
    by (simp add: max_int64_def)
  then have "get_history 9223372036854775808 sample_store = Inl OverflowError"
    by (rule get_history_overflow)
  then show ?thesis by simp
qed

text \<open>
  C10. With a limit of 0 the history endpoint returns every stored record, newest first:
  the cursor reads a limit of 0 as no limit, so the data list has as many elements as the
  collection and is not empty unless the collection is.
\<close>

theorem history_limit_zero:
  "\<exists>r. get_history 0 w = Inr r \<and>
     handle e (GetHistory (Some 0)) w = (Inr (HistoryBody r), w) \<and>
     data r = map project (sort_desc (collection w)) \<and>
     mset (data r) = mset (map project (collection w)) \<and>
     length (data r) = length (collection w) \<and>
     count_field r = length (collection w) \<and>
     sorted_wrt (\<lambda>a b. created_at a \<ge> created_at b) (data r)"
proof -
  let ?r = "\<lparr>count_field = length (collection w),
             data = map project (sort_desc (collection w))\<rparr>"
  have g: "get_history 0 w = Inr ?r" by (rule get_history_unlimited)
  have "length (sort_desc (collection w)) = length (collection w)"
    by (simp add: sort_desc_def)
  then show ?thesis
    using g mset_projected [of "collection w"] sorted_projected [of "collection w"]
    by (intro exI [of _ ?r]) simp
qed

theorem history_limit_zero_witness:
  "get_history 0 sample_store =
     Inr \<lparr>count_field = 3,
          data = [\<lparr>original_text = ''third'', summary_text = ''s3'', created_at = 30\<rparr>,
                  \<lparr>original_text = ''second'', summary_text = ''s2'', created_at = 20\<rparr>,
                  \<lparr>original_text = ''first'', summary_text = ''s1'', created_at = 10\<rparr>]\<rparr> \<and>
   (\<exists>r. get_history 0 sample_store = Inr r \<and>
        length (data r) = length (collection sample_store) \<and>
        mset (data r) = mset (map project (collection sample_store)))"
  using sample_history_0 history_limit_zero [of sample_store "sample_env flaky_client"]
  by blast

end
